theory Spec2Isabelle
  imports Complex_Main
begin

section \<open>Values and tensors\<close>

text \<open>
  Tensors of the training script hold floating-point numbers. Finite values are modelled
  as exact reals (rounding is not modelled); the only operation of the script that can
  leave the finite values from finite inputs is the division by a row sum, so the result
  of a division is a value of \<open>fval\<close>, which keeps the three non-finite results of a
  division by zero: \<open>0/0\<close> is \<open>NaN\<close>, \<open>x/0\<close> is an infinity with the sign of \<open>x\<close>.
\<close>

datatype fval = Fin real | PosInf | NegInf | NaN

definition fdiv :: "real \<Rightarrow> real \<Rightarrow> fval" where
  "fdiv x s =
     (if s \<noteq> 0 then Fin (x / s)
      else if x = 0 then NaN
      else if 0 < x then PosInf
      else NegInf)"

text \<open>Addition of two such values, as \<open>torch.sum\<close> folds it over a row.\<close>

fun fadd :: "fval \<Rightarrow> fval \<Rightarrow> fval" where
  "fadd (Fin a) (Fin b) = Fin (a + b)"
| "fadd NaN _ = NaN"
| "fadd _ NaN = NaN"
| "fadd PosInf NegInf = NaN"
| "fadd NegInf PosInf = NaN"
| "fadd PosInf _ = PosInf"
| "fadd _ PosInf = PosInf"
| "fadd NegInf _ = NegInf"
| "fadd _ NegInf = NegInf"

definition fsum :: "fval list \<Rightarrow> fval" where
  "fsum row = foldl fadd (Fin 0) row"

text \<open>
  A tensor carries its data (a batch of rows, one row per example, \<open>dim=1\<close> runs along a
  row) and the autograd flag \<open>requires_grad\<close>.
\<close>

record 'a tensor =
  data :: "'a list list"
  requires_grad :: bool

definition detach :: "'a tensor \<Rightarrow> 'a tensor" where
  "detach t = t\<lparr>requires_grad := False\<rparr>"

section \<open>The pseudo-label update (train\_meta\_learning.py, lines 126--137)\<close>

text \<open>
  The elementwise tensor operations the update uses. The gradient returned by
  \<open>torch.autograd.grad\<close> has the shape of the tensor it is taken for, so the two
  operands of the subtraction always have equal shapes; \<open>map2\<close> is only ever applied to
  lists of equal length there.
\<close>

definition smul :: "real \<Rightarrow> real list list \<Rightarrow> real list list" where
  "smul c g = map (map (\<lambda>d. c * d)) g"

definition isub :: "real list list \<Rightarrow> real list list \<Rightarrow> real list list" where
  "isub t d = map2 (map2 (\<lambda>x y. x - y)) t d"

definition clamp :: "real \<Rightarrow> real \<Rightarrow> real list list \<Rightarrow> real list list" where
  "clamp lo hi t = map (map (\<lambda>x. min (max x lo) hi)) t"

definition relu_inplace :: "real list list \<Rightarrow> real list list" where
  "relu_inplace t = map (map (\<lambda>x. max x 0)) t"

text \<open>\<open>torch.sum(t, dim=1, keepdim=True)\<close>: one sum per row.\<close>

definition sum_dim1 :: "real list list \<Rightarrow> real list" where
  "sum_dim1 t = map sum_list t"

text \<open>\<open>t /= s\<close> with \<open>s\<close> of shape (rows, 1): every entry of row \<open>i\<close> is divided by \<open>s[i]\<close>.\<close>

definition idiv :: "real list list \<Rightarrow> real list \<Rightarrow> fval list list" where
  "idiv t s = map2 (\<lambda>row d. map (\<lambda>x. fdiv x d) row) t s"

text \<open>
  Lines 128--137. \<open>ty\<close> is \<open>args.type\<close>, a string that the argument parser restricts to
  \<open>'0'\<close>, \<open>'1'\<close>, \<open>'2'\<close>, \<open>'3'\<close>; the chain of \<open>if\<close>/\<open>elif\<close> has no \<open>else\<close>.
\<close>

definition update_pseudo_gt ::
  "string \<Rightarrow> real \<Rightarrow> real list list \<Rightarrow> real list list \<Rightarrow> fval list list" where
  "update_pseudo_gt ty inner_lr unlabel_pseudo_gt unlabel_grad =
     (let t = isub unlabel_pseudo_gt (smul inner_lr unlabel_grad) in
      if ty = ''0'' then (let t = clamp 0 1 t in idiv t (sum_dim1 t))
      else if ty = ''1'' then (let t = relu_inplace t in idiv t (sum_dim1 t))
      else if ty = ''2'' then map (map Fin) (relu_inplace t)
      else map (map Fin) t)"

section \<open>Configuration, optimizer and learning-rate scheduler\<close>

text \<open>
  The command-line arguments the training loop reads (lines 16--38). The options that
  only reach the data loaders and the device set-up are left out.
\<close>

record args =
  total_steps :: int
  start_step :: int
  lr :: real
  lr_decay :: real
  multiplier :: real
  fix_inner :: bool
  type :: string
  weight_decay :: real
  momentum :: real
  resume :: "string option"
  print_freq :: int
  test_freq :: int
  save_path :: string

text \<open>
  The state of \<open>torch.optim.SGD\<close> with its single parameter group, which is also what
  \<open>optimizer.state_dict()\<close> holds: the hyperparameters of the group, among them the
  current learning rate \<open>lr\<close>, and the momentum buffers. \<open>'p\<close> is the type of a
  parameter set (a \<open>state_dict\<close> of a network); gradients and momentum buffers have the
  shape of the parameters of backbone and classifier head.
\<close>

record 'p sgd =
  lr :: real
  initial_lr :: "real option"
  momentum :: real
  weight_decay :: real
  momentum_buffer :: "('p \<times> 'p) option"

definition SGD :: "real \<Rightarrow> real \<Rightarrow> real \<Rightarrow> 'p sgd" where
  "SGD l m w =
     \<lparr>lr = l, initial_lr = None, momentum = m, weight_decay = w, momentum_buffer = None\<rparr>"

text \<open>
  \<open>torch.optim.lr_scheduler.MultiStepLR\<close> is library code. It is modelled by its
  recurrence: the scheduler counts its own calls of \<open>step\<close> in \<open>last_epoch\<close>, and when
  the counter reaches a milestone the learning rate of the optimizer is multiplied by
  \<open>gamma\<close>, once for every occurrence of that milestone in the list. The constructor
  records \<open>initial_lr\<close> in the parameter group and performs the step that takes the
  counter from -1 to 0.
\<close>

record multi_step_lr =
  gamma :: real
  milestones :: "int list"
  last_epoch :: int
  base_lr :: real

definition get_lr :: "multi_step_lr \<Rightarrow> real \<Rightarrow> real" where
  "get_lr sch cur =
     (if last_epoch sch \<in> set (milestones sch)
      then cur * gamma sch ^ count_list (milestones sch) (last_epoch sch)
      else cur)"

definition scheduler_step :: "multi_step_lr \<times> 'p sgd \<Rightarrow> multi_step_lr \<times> 'p sgd" where
  "scheduler_step so =
     (let sch = (fst so)\<lparr>last_epoch := last_epoch (fst so) + 1\<rparr>
      in (sch, (snd so)\<lparr>lr := get_lr sch (sgd.lr (snd so))\<rparr>))"

definition MultiStepLR :: "'p sgd \<Rightarrow> real \<Rightarrow> int list \<Rightarrow> multi_step_lr \<times> 'p sgd" where
  "MultiStepLR opt g ms =
     (let l0 = (case initial_lr opt of None \<Rightarrow> sgd.lr opt | Some l \<Rightarrow> l);
          opt1 = opt\<lparr>initial_lr := Some l0\<rparr>
      in scheduler_step (\<lparr>gamma = g, milestones = ms, last_epoch = - 1, base_lr = l0\<rparr>, opt1))"

section \<open>Errors, metrics, checkpoints and the program state\<close>

datatype error = KeyError string | TypeError string | ZeroDivisionError | RuntimeError

text \<open>
  Modelled from the spec: \<open>AverageMeter\<close> of utils.py, which is not among the sources.
  Per metric the latest value, the running sum and the running count; \<open>update\<close> folds
  \<open>n\<close> occurrences of a value into them; a fresh meter is empty; \<open>avg\<close> is the running
  mean, taken as 0 for an empty meter.
\<close>

record AverageMeter =
  val :: real
  total :: real
  count :: nat

definition new_meter :: AverageMeter where
  "new_meter = \<lparr>val = 0, total = 0, count = 0\<rparr>"

definition update :: "AverageMeter \<Rightarrow> real \<Rightarrow> nat \<Rightarrow> AverageMeter" where
  "update m v n = \<lparr>val = v, total = total m + v * real n, count = count m + n\<rparr>"

definition avg :: "AverageMeter \<Rightarrow> real" where
  "avg m = (if count m = 0 then 0 else total m / real (count m))"

text \<open>
  What the program writes: \<open>print\<close>, \<open>logger.info\<close> (the message is abbreviated to its
  fixed prefix) and \<open>writer.add_scalar\<close> with its tag, the object passed as value and
  the step.
\<close>

datatype scalar = Float real | Meter AverageMeter

datatype event = Print | Info string | Scalar string scalar int

text \<open>
  A checkpoint file holds a dictionary. \<open>getitem\<close> is the subscript \<open>checkpoint[k]\<close>.
\<close>

datatype 'p ckval = CkInt int | CkFloat real | CkParams 'p | CkOptim "'p sgd"

type_synonym 'p checkpoint = "string \<rightharpoonup> 'p ckval"

definition getitem :: "'p checkpoint \<Rightarrow> string \<Rightarrow> error + 'p ckval" where
  "getitem d k = (case d k of None \<Rightarrow> Inl (KeyError k) | Some v \<Rightarrow> Inr v)"

text \<open>
  The module-level state after line 74: the parameters of backbone (\<open>model\<close>) and head
  (\<open>classifier\<close>) with their train/eval mode, the autograd mode, optimizer, scheduler,
  the files on disk that hold checkpoints, and the output written so far.
\<close>

record 'p state =
  model :: 'p
  classifier :: 'p
  model_training :: bool
  classifier_training :: bool
  grad_enabled :: bool
  optimizer :: "'p sgd"
  lr_scheduler :: multi_step_lr
  files :: "string \<rightharpoonup> 'p checkpoint"
  out :: "event list"

text \<open>The local variables of \<open>main\<close> that live across iterations.\<close>

record locals =
  data_times :: AverageMeter
  batch_times :: AverageMeter
  label_losses :: AverageMeter
  unlabel_losses :: AverageMeter
  label_acc :: AverageMeter
  unlabel_acc :: AverageMeter
  best_acc :: real
  losses :: "AverageMeter option"
  acc :: "scalar option"

text \<open>
  What one iteration reads from outside: the labeled and the unlabeled batch (each an
  input with its labels) and the two clock differences it measures.
\<close>

record 'x batches =
  label_img :: 'x
  label_gt :: "int list"
  unlabel_img :: 'x
  unlabel_gt :: "int list"
  data_time :: real
  batch_time :: real

text \<open>
  The networks, automatic differentiation and the update rule of SGD are opaque: they
  are parameters of the model. Each field stands for the library call named beside it,
  as a function of everything that call can depend on. Forward passes are taken as
  functions of parameters and input. The value of a loss is a real; a non-finite loss is
  outside the model. In \<open>test_batch\<close> a call may raise.
  \<^item> \<open>forward\<close>: \<open>classifier(model(img))\<close>, line 114;
  \<^item> \<open>fast_forward\<close>: \<open>classifier(model(label_img, inner_lr), inner_lr)\<close>, line 121, which
    reads the gradients that \<open>loss1.backward(create_graph=True)\<close> left (lines 117--118),
    themselves determined by parameters, unlabeled input and the pseudo-label tensor;
  \<^item> \<open>autograd_grad\<close>: \<open>torch.autograd.grad(loss2, (unlabel_pseudo_gt,))\<close>, line 123;
  \<^item> \<open>kl_div\<close>: \<open>F.kl_div(input, target, reduction='batchmean')\<close>, line 141;
  \<^item> \<open>backward\<close>: the gradients \<open>loss.backward()\<close> stores after \<open>zero_grad\<close>, lines 149--150;
  \<^item> \<open>sgd_step\<close>: \<open>optimizer.step()\<close>, line 151: new parameters and momentum buffers;
  \<^item> \<open>test_batch\<close>: lines 221--229 and the clock of line 233 for one held-out batch:
    loss, top-1 accuracy, batch size and elapsed time, or the exception raised.
\<close>

record ('p, 'x) torch =
  forward :: "'p \<times> 'p \<Rightarrow> 'x \<Rightarrow> real list list"
  softmax :: "real list list \<Rightarrow> real list list"
  log_softmax :: "real list list \<Rightarrow> real list list"
  fast_forward :: "'p \<times> 'p \<Rightarrow> 'x \<Rightarrow> real tensor \<Rightarrow> real \<Rightarrow> 'x \<Rightarrow> real list list"
  cross_entropy :: "real list list \<Rightarrow> int list \<Rightarrow> real"
  autograd_grad ::
    "'p \<times> 'p \<Rightarrow> 'x \<Rightarrow> real tensor \<Rightarrow> real \<Rightarrow> 'x \<Rightarrow> int list \<Rightarrow> real list list"
  kl_div :: "real list list \<Rightarrow> fval tensor \<Rightarrow> real"
  backward :: "'p \<times> 'p \<Rightarrow> 'x \<Rightarrow> fval tensor \<Rightarrow> 'p \<times> 'p"
  sgd_step :: "'p sgd \<Rightarrow> 'p \<times> 'p \<Rightarrow> 'p \<times> 'p \<Rightarrow> ('p \<times> 'p) \<times> ('p \<times> 'p) option"
  accuracy :: "real list list \<Rightarrow> int list \<Rightarrow> real"
  size0 :: "'x \<Rightarrow> nat"
  test_batch :: "'p \<times> 'p \<Rightarrow> 'x \<times> int list \<Rightarrow> error + (real \<times> real \<times> nat \<times> real)"

section \<open>Construction (lines 59--74) and the resume block (lines 77--88)\<close>

text \<open>
  \<open>m\<close> and \<open>c\<close> are the freshly initialised parameters of \<open>ConvLarge()\<close> and
  \<open>Classifier()\<close>, \<open>fs\<close> the files on disk. New modules are in training mode.
\<close>

definition build :: "args \<Rightarrow> 'p \<Rightarrow> 'p \<Rightarrow> (string \<rightharpoonup> 'p checkpoint) \<Rightarrow> 'p state" where
  "build a m c fs =
     (let opt = SGD (args.lr a) (args.momentum a) (args.weight_decay a);
          so = MultiStepLR opt (lr_decay a) [total_steps a div 2, total_steps a * 3 div 4]
      in \<lparr>model = m, classifier = c, model_training = True, classifier_training = True,
          grad_enabled = True, optimizer = snd so, lr_scheduler = fst so, files = fs,
          out = []\<rparr>)"

text \<open>
  The values a checkpoint entry is used as. A value of the wrong kind is reported as a
  \<open>TypeError\<close> where it is read.
\<close>

definition as_int :: "string \<Rightarrow> 'p ckval \<Rightarrow> error + int" where
  "as_int k v = (case v of CkInt i \<Rightarrow> Inr i | _ \<Rightarrow> Inl (TypeError k))"

definition as_float :: "string \<Rightarrow> 'p ckval \<Rightarrow> error + real" where
  "as_float k v = (case v of CkFloat r \<Rightarrow> Inr r | CkInt i \<Rightarrow> Inr (real_of_int i) | _ \<Rightarrow> Inl (TypeError k))"

definition as_params :: "string \<Rightarrow> 'p ckval \<Rightarrow> error + 'p" where
  "as_params k v = (case v of CkParams q \<Rightarrow> Inr q | _ \<Rightarrow> Inl (TypeError k))"

definition as_optim :: "string \<Rightarrow> 'p ckval \<Rightarrow> error + 'p sgd" where
  "as_optim k v = (case v of CkOptim q \<Rightarrow> Inr q | _ \<Rightarrow> Inl (TypeError k))"

definition and_then :: "'e + 'a \<Rightarrow> ('a \<Rightarrow> 'e + 'b) \<Rightarrow> 'e + 'b" where
  "and_then r f = (case r of Inl e \<Rightarrow> Inl e | Inr x \<Rightarrow> f x)"

definition read_entry :: "'p checkpoint \<Rightarrow> string \<Rightarrow> (string \<Rightarrow> 'p ckval \<Rightarrow> error + 'a) \<Rightarrow> error + 'a" where
  "read_entry d k as = and_then (getitem d k) (as k)"

text \<open>
  Lines 77--88, run at module level before \<open>main\<close>. The result is the arguments (with
  \<open>start_step\<close> overwritten), the module-level variable \<open>best_acc\<close> (unbound unless a
  checkpoint was loaded) and the state; an uncaught exception ends the program.
\<close>

definition resume_block :: "args \<Rightarrow> 'p state \<Rightarrow> error + (args \<times> real option \<times> 'p state)" where
  "resume_block a st =
     (case resume a of
        None \<Rightarrow> Inr (a, None, st)
      | Some path \<Rightarrow>
          (case files st path of
             None \<Rightarrow> Inr (a, None, st\<lparr>out := out st @ [Info ''=> no checkpoint found at'']\<rparr>)
           | Some checkpoint \<Rightarrow>
               and_then (read_entry checkpoint ''step'' as_int) (\<lambda>step.
               and_then (read_entry checkpoint ''best_acc'' as_float) (\<lambda>best.
               and_then (read_entry checkpoint ''model'' as_params) (\<lambda>m.
               and_then (read_entry checkpoint ''classifier'' as_params) (\<lambda>c.
               and_then (read_entry checkpoint ''optimizer'' as_optim) (\<lambda>opt.
               and_then (getitem checkpoint ''epoch'') (\<lambda>epoch.
                 Inr (a\<lparr>start_step := step\<rparr>, Some best,
                      st\<lparr>model := m, classifier := c, optimizer := opt,
                         out := out st @ [Info ''=> loading checkpoint'',
                                          Info ''=> loaded checkpoint'']\<rparr>)))))))))"

section \<open>One training iteration (lines 97--157)\<close>

text \<open>The values an iteration computes and the statements after line 157 read.\<close>

record step_values =
  inner_lr :: real
  unlabel_pred :: "real list list"
  label_pred :: "real list list"
  loss2 :: real
  unlabel_pseudo_gt :: "fval tensor"
  loss :: real

text \<open>Lines 109--110: the inner learning rate.\<close>

definition compute_inner_lr :: "args \<Rightarrow> 'p state \<Rightarrow> real" where
  "compute_inner_lr a st =
     (if fix_inner a then args.lr a * multiplier a
      else sgd.lr (optimizer st) * multiplier a)"

text \<open>
  Lines 114--116: the pseudo-labels before the update, the detached softmax of the
  prediction for the unlabeled batch, made a leaf that receives a gradient.
\<close>

definition initial_pseudo_gt :: "('p, 'x) torch \<Rightarrow> 'x batches \<Rightarrow> 'p state \<Rightarrow> real tensor" where
  "initial_pseudo_gt T b st =
     (let pred = forward T (model st, classifier st) (unlabel_img b);
          t0 = detach \<lparr>data = softmax T pred, requires_grad = True\<rparr>
      in t0\<lparr>requires_grad := True\<rparr>)"

text \<open>Lines 117--123: the gradient of \<open>loss2\<close> with respect to the pseudo-labels.\<close>

definition meta_gradient ::
  "('p, 'x) torch \<Rightarrow> args \<Rightarrow> 'x batches \<Rightarrow> 'p state \<Rightarrow> real list list" where
  "meta_gradient T a b st =
     autograd_grad T (model st, classifier st) (unlabel_img b) (initial_pseudo_gt T b st)
       (compute_inner_lr a st) (label_img b) (label_gt b)"

text \<open>
  Lines 109--152. The block under \<open>torch.no_grad()\<close> leaves the autograd mode as it
  found it. \<open>optimizer.step()\<close> changes parameters and momentum buffers only.
\<close>

definition train_step ::
  "('p, 'x) torch \<Rightarrow> args \<Rightarrow> 'x batches \<Rightarrow> 'p state \<Rightarrow> step_values \<times> 'p state" where
  "train_step T a b st =
     (let params = (model st, classifier st);
          ilr = compute_inner_lr a st;
          pred = forward T params (unlabel_img b);
          t1 = initial_pseudo_gt T b st;
          lpred = fast_forward T params (unlabel_img b) t1 ilr (label_img b);
          l2 = cross_entropy T lpred (label_gt b);
          unlabel_grad = meta_gradient T a b st;
          t2 = t1\<lparr>requires_grad := False\<rparr>;
          t3 = \<lparr>data = update_pseudo_gt (type a) ilr (data t2) unlabel_grad,
                requires_grad = requires_grad t2\<rparr>;
          l = kl_div T (log_softmax T pred) (detach t3);
          grads = backward T params (unlabel_img b) (detach t3);
          stepped = sgd_step T (optimizer st) params grads;
          so = scheduler_step (lr_scheduler st, (optimizer st)\<lparr>momentum_buffer := snd stepped\<rparr>)
      in (\<lparr>inner_lr = ilr, unlabel_pred = pred, label_pred = lpred, loss2 = l2,
           unlabel_pseudo_gt = t3, loss = l\<rparr>,
          st\<lparr>model := fst (fst stepped), classifier := snd (fst stepped),
             optimizer := snd so, lr_scheduler := fst so\<rparr>))"

text \<open>
  The loop body as it runs: after the scheduler step, line 155 prints and line 156 is
  \<open>continue\<close>, so the statements of lines 159--209 are not part of it.
\<close>

definition loop_body ::
  "('p, 'x) torch \<Rightarrow> args \<Rightarrow> 'x batches \<Rightarrow> int \<Rightarrow> locals \<times> 'p state \<Rightarrow> locals \<times> 'p state" where
  "loop_body T a b step ls =
     (let st1 = snd (train_step T a b (snd ls))
      in (fst ls, st1\<lparr>out := out st1 @ [Print]\<rparr>))"

text \<open>\<open>for step in range(i, n)\<close>.\<close>

function for_range :: "int \<Rightarrow> int \<Rightarrow> (int \<Rightarrow> 's \<Rightarrow> 's) \<Rightarrow> 's \<Rightarrow> 's" where
  "for_range i n body s = (if i < n then for_range (i + 1) n body (body i s) else s)"
  by pat_completeness auto
termination
  by (relation "measure (\<lambda>(i, n, body, s). nat (n - i))") auto

text \<open>
  Lines 91--92: the six meters and \<open>best_acc = 0.\<close>; \<open>losses\<close> and \<open>acc\<close> are not bound
  yet.
\<close>

definition initial_locals :: locals where
  "initial_locals =
     \<lparr>data_times = new_meter, batch_times = new_meter, label_losses = new_meter,
      unlabel_losses = new_meter, label_acc = new_meter, unlabel_acc = new_meter,
      best_acc = 0, losses = None, acc = None\<rparr>"

text \<open>
  \<open>main\<close>, lines 91--96 and the loop. \<open>loader k\<close> is what the \<open>k\<close>-th call of
  \<open>next(label_loader)\<close> and \<open>next(unlabel_loader)\<close> returns. \<open>main_upto\<close> stops the loop
  before step \<open>n\<close>: it gives the state in which iteration \<open>n\<close> starts.
\<close>

definition main_upto ::
  "('p, 'x) torch \<Rightarrow> args \<Rightarrow> (nat \<Rightarrow> 'x batches) \<Rightarrow> 'p state \<Rightarrow> int \<Rightarrow> locals \<times> 'p state" where
  "main_upto T a loader st n =
     (let loc = initial_locals;
          st1 = st\<lparr>model_training := True, classifier_training := True,
                   out := out st @ [Info ''Start training...'']\<rparr>
      in for_range (start_step a) n
           (\<lambda>step. loop_body T a (loader (nat (step - start_step a))) step) (loc, st1))"

definition main ::
  "('p, 'x) torch \<Rightarrow> args \<Rightarrow> (nat \<Rightarrow> 'x batches) \<Rightarrow> 'p state \<Rightarrow> locals \<times> 'p state" where
  "main T a loader st = main_upto T a loader st (total_steps a)"

text \<open>The whole script: construction, the resume block, \<open>main()\<close>.\<close>

definition program ::
  "('p, 'x) torch \<Rightarrow> args \<Rightarrow> 'p \<Rightarrow> 'p \<Rightarrow> (string \<rightharpoonup> 'p checkpoint) \<Rightarrow> (nat \<Rightarrow> 'x batches)
     \<Rightarrow> error + (locals \<times> 'p state)" where
  "program T a m c fs loader =
     (case resume_block a (build a m c fs) of
        Inl e \<Rightarrow> Inl e
      | Inr r \<Rightarrow> Inr (main T (fst r) loader (snd (snd r))))"

section \<open>Evaluation: \<open>test()\<close> (lines 212--245)\<close>

text \<open>
  The loop of lines 220--239 over the held-out batches, with the index \<open>i\<close> of
  \<open>enumerate\<close>, the three meters and the output. An exception leaves the loop with the
  output written so far; \<open>i % args.print_freq\<close> raises when \<open>print_freq\<close> is 0.
\<close>

fun test_loop ::
  "('p, 'x) torch \<Rightarrow> args \<Rightarrow> 'p \<times> 'p \<Rightarrow> int \<Rightarrow> ('x \<times> int list) list
     \<Rightarrow> (AverageMeter \<times> AverageMeter \<times> AverageMeter) \<times> event list
     \<Rightarrow> (error \<times> event list) + ((AverageMeter \<times> AverageMeter \<times> AverageMeter) \<times> event list)" where
  "test_loop T a params i [] r = Inr r"
| "test_loop T a params i (b # bs) r =
     (case test_batch T params b of
        Inl e \<Rightarrow> Inl (e, snd r)
      | Inr (l, top1, n, elapsed) \<Rightarrow>
          (let btime = update (fst (fst r)) elapsed 1;
               ls = update (fst (snd (fst r))) l n;
               ac = update (snd (snd (fst r))) top1 n
           in if print_freq a = 0 then Inl (ZeroDivisionError, snd r)
              else test_loop T a params (i + 1) bs
                     ((btime, ls, ac),
                      (if i mod print_freq a = 0 then snd r @ [Info ''Test:''] else snd r))))"

text \<open>
  \<open>test()\<close>. The two \<open>eval()\<close> calls, the \<open>with torch.no_grad()\<close> block, whose exit
  restores the autograd mode also when an exception passes through it, and after the
  block the two \<open>train()\<close> calls and the return of \<open>acc.avg\<close>. There is no handler: an
  exception raised in the loop passes the two \<open>train()\<close> calls by. The result is the
  returned value or the exception, each with the state it leaves.
\<close>

definition test ::
  "('p, 'x) torch \<Rightarrow> args \<Rightarrow> ('x \<times> int list) list \<Rightarrow> 'p state
     \<Rightarrow> (error \<times> 'p state) + (real \<times> 'p state)" where
  "test T a test_loader st =
     (let st1 = st\<lparr>model_training := False, classifier_training := False\<rparr>;
          prev = grad_enabled st1;
          st2 = st1\<lparr>grad_enabled := False\<rparr>
      in case test_loop T a (model st2, classifier st2) 0 test_loader
                ((new_meter, new_meter, new_meter), out st2) of
           Inl (e, o1) \<Rightarrow> Inl (e, st2\<lparr>grad_enabled := prev, out := o1\<rparr>)
         | Inr (meters, o1) \<Rightarrow>
             (let st3 = st2\<lparr>out := o1 @ [Info '' * Accuracy'']\<rparr>;
                  st4 = st3\<lparr>grad_enabled := prev\<rparr>;
                  st5 = st4\<lparr>model_training := True, classifier_training := True\<rparr>
              in Inr (avg (snd (snd meters)), st5)))"

section \<open>The statements after \<open>continue\<close> (lines 159--209)\<close>

text \<open>The dictionary built at lines 199--205.\<close>

definition checkpoint_dict :: "int \<Rightarrow> real \<Rightarrow> 'p state \<Rightarrow> 'p checkpoint" where
  "checkpoint_dict step best st =
     [''step'' \<mapsto> CkInt (step + 1),
      ''model'' \<mapsto> CkParams (model st),
      ''classifier'' \<mapsto> CkParams (classifier st),
      ''best_acc'' \<mapsto> CkFloat best,
      ''optimizer'' \<mapsto> CkOptim (optimizer st)]"

text \<open>
  Modelled from the spec: \<open>save_checkpoint\<close> of utils.py, which is not among the sources.
  It writes the bundle as the latest checkpoint under the given path and file name, and
  a second copy as the best one when \<open>is_best\<close> holds.
\<close>

definition save_checkpoint :: "'p checkpoint \<Rightarrow> bool \<Rightarrow> string \<Rightarrow> string \<Rightarrow> 'p state \<Rightarrow> 'p state" where
  "save_checkpoint d is_best path filename st =
     (let fs = (files st)(path @ ''/'' @ filename \<mapsto> d)
      in st\<lparr>files := (if is_best then fs(path @ ''/model_best.pth'' \<mapsto> d) else fs)\<rparr>)"

text \<open>Lines 160--169: the two accuracies and the six meter updates.\<close>

definition update_stats ::
  "('p, 'x) torch \<Rightarrow> 'x batches \<Rightarrow> step_values \<Rightarrow> locals \<Rightarrow> locals" where
  "update_stats T b v loc =
     (let label_top1 = accuracy T (label_pred v) (label_gt b);
          unlabel_top1 = accuracy T (unlabel_pred v) (unlabel_gt b);
          n = size0 T (label_img b)
      in loc\<lparr>data_times := update (data_times loc) (data_time b) 1,
             batch_times := update (batch_times loc) (batch_time b) 1,
             label_losses := update (label_losses loc) (loss2 v) n,
             unlabel_losses := update (unlabel_losses loc) (loss v) n,
             label_acc := update (label_acc loc) label_top1 n,
             unlabel_acc := update (unlabel_acc loc) unlabel_top1 n\<rparr>)"

text \<open>Lines 172--177: the six scalars written to the board.\<close>

definition write_scalars ::
  "('p, 'x) torch \<Rightarrow> 'x batches \<Rightarrow> int \<Rightarrow> step_values \<Rightarrow> 'p state \<Rightarrow> 'p state" where
  "write_scalars T b step v st =
     st\<lparr>out := out st @
        [Scalar ''train/label-acc'' (Float (accuracy T (label_pred v) (label_gt b))) step,
         Scalar ''train/unlabel-acc'' (Float (accuracy T (unlabel_pred v) (unlabel_gt b))) step,
         Scalar ''train/label-loss'' (Float (loss2 v)) step,
         Scalar ''train/unlabel-loss'' (Float (loss v)) step,
         Scalar ''train/lr'' (Float (sgd.lr (optimizer st))) step,
         Scalar ''train/inner-lr'' (Float (inner_lr v)) step]\<rparr>"

text \<open>
  Lines 193--209, the body of the \<open>if\<close> of line 192. Line 207 binds the two names
  \<open>losses\<close> and \<open>acc\<close> to new meters; line 209 then passes \<open>acc\<close> to the writer.
\<close>

definition test_and_save ::
  "('p, 'x) torch \<Rightarrow> args \<Rightarrow> ('x \<times> int list) list \<Rightarrow> int \<Rightarrow> locals \<times> 'p state
     \<Rightarrow> (error \<times> locals \<times> 'p state) + (locals \<times> 'p state)" where
  "test_and_save T a test_loader step ls =
     (case test T a test_loader (snd ls) of
        Inl es \<Rightarrow> Inl (fst es, fst ls, snd es)
      | Inr rs \<Rightarrow>
          (let test_acc = fst rs;
               is_best = (test_acc > best_acc (fst ls));
               loc2 = (if is_best then (fst ls)\<lparr>best_acc := test_acc\<rparr> else fst ls);
               st4 = (snd rs)\<lparr>out := out (snd rs) @ [Info ''Best Accuracy:'']\<rparr>;
               st5 = save_checkpoint (checkpoint_dict step (best_acc loc2) st4)
                       is_best (save_path a) ''checkpoint.pth'' st4;
               loc3 = loc2\<lparr>losses := Some new_meter, acc := Some (Meter new_meter)\<rparr>;
               st6 = st5\<lparr>out := out st5 @ [Scalar ''test/accuracy'' (Meter new_meter) step]\<rparr>
           in Inr (loc3, st6)))"

text \<open>
  Lines 159--209 as they are written, as a function of the values of the iteration:
  what the loop body would go on to do if line 156 were not there. A modulus by zero
  raises.
\<close>

definition after_continue ::
  "('p, 'x) torch \<Rightarrow> args \<Rightarrow> ('x \<times> int list) list \<Rightarrow> 'x batches \<Rightarrow> int \<Rightarrow> step_values
     \<Rightarrow> locals \<times> 'p state \<Rightarrow> (error \<times> locals \<times> 'p state) + (locals \<times> 'p state)" where
  "after_continue T a test_loader b step v ls =
     (let loc1 = update_stats T b v (fst ls);
          st1 = write_scalars T b step v (snd ls)
      in if print_freq a = 0 then Inl (ZeroDivisionError, loc1, st1)
         else
           (let st2 = (if step mod print_freq a = 0 then st1\<lparr>out := out st1 @ [Info ''Step:'']\<rparr>
                       else st1)
            in if test_freq a = 0 then Inl (ZeroDivisionError, loc1, st2)
               else if (step + 1) mod test_freq a = 0 \<or> step = total_steps a - 1
                 then test_and_save T a test_loader step (loc1, st2)
               else Inr (loc1, st2)))"

text \<open>
  The loop body without line 156, for reference: the iteration followed by the
  statements after it.
\<close>

definition body_without_continue ::
  "('p, 'x) torch \<Rightarrow> args \<Rightarrow> ('x \<times> int list) list \<Rightarrow> 'x batches \<Rightarrow> int
     \<Rightarrow> locals \<times> 'p state \<Rightarrow> (error \<times> locals \<times> 'p state) + (locals \<times> 'p state)" where
  "body_without_continue T a test_loader b step ls =
     (let r = train_step T a b (snd ls);
          st1 = snd r
      in after_continue T a test_loader b step (fst r) (fst ls, st1\<lparr>out := out st1 @ [Print]\<rparr>))"

text \<open>
  The number of milestones (with repetitions) that a counter going from \<open>e0\<close> to \<open>e\<close>
  reaches on its way: those \<open>k\<close> with \<open>e0 < k \<le> e\<close>.
\<close>

definition reached :: "int list \<Rightarrow> int \<Rightarrow> int \<Rightarrow> nat" where
  "reached ms e0 e = length (filter (\<lambda>k. e0 < k \<and> k \<le> e) ms)"

section \<open>The specification's wording of the projection\<close>

text \<open>
  The specification describes the update and the three projection policies entry by
  entry. These definitions follow its words, for comparison with \<open>update_pseudo_gt\<close>.
\<close>

definition spec_meta_update :: "real \<Rightarrow> real list list \<Rightarrow> real list list \<Rightarrow> real list list" where
  "spec_meta_update step_size target grad =
     map2 (\<lambda>trow grow. map2 (\<lambda>x d. x - step_size * d) trow grow) target grad"

definition spec_clamp_unit :: "real \<Rightarrow> real" where
  "spec_clamp_unit x = (if x < 0 then 0 else if 1 < x then 1 else x)"

definition spec_clip_negative :: "real \<Rightarrow> real" where
  "spec_clip_negative x = (if x < 0 then 0 else x)"

definition spec_divide_by_sum :: "real list \<Rightarrow> fval list" where
  "spec_divide_by_sum row = map (\<lambda>x. fdiv x (sum_list row)) row"

definition spec_project :: "nat \<Rightarrow> real list list \<Rightarrow> fval list list" where
  "spec_project policy target =
     (if policy = 0 then map (\<lambda>row. spec_divide_by_sum (map spec_clamp_unit row)) target
      else if policy = 1 then map (\<lambda>row. spec_divide_by_sum (map spec_clip_negative row)) target
      else map (\<lambda>row. map (\<lambda>x. Fin (spec_clip_negative x)) row) target)"




section \<open>A small instance to run the definitions on\<close>

text \<open>
  An instance of the opaque operations, with one real weight for each network and
  inputs that are batches of rows: the networks are the identity, the meta-gradient is
  1 in every entry, every held-out batch has accuracy 1/2, and a held-out batch with no
  rows raises.
\<close>

definition toy_torch :: "(real, real list list) torch" where
  "toy_torch =
     \<lparr>forward = (\<lambda>p x. x),
      softmax = (\<lambda>t. t),
      log_softmax = (\<lambda>t. t),
      fast_forward = (\<lambda>p u t l x. x),
      cross_entropy = (\<lambda>pred gt. 0),
      autograd_grad = (\<lambda>p u t l x gt. map (map (\<lambda>v. 1)) (data t)),
      kl_div = (\<lambda>inp t. 0),
      backward = (\<lambda>p u t. (1, 1)),
      sgd_step = (\<lambda>opt p g. ((fst p - sgd.lr opt * fst g, snd p - sgd.lr opt * snd g), Some g)),
      accuracy = (\<lambda>pred gt. 0),
      size0 = length,
      test_batch = (\<lambda>p b. if fst b = [] then Inl RuntimeError
                           else Inr (0, 1 / 2, length (fst b), 0))\<rparr>"

definition toy_args :: args where
  "toy_args =
     \<lparr>total_steps = 100000, start_step = 0, lr = 0.1, lr_decay = 0.1, multiplier = 1,
      fix_inner = False, type = ''0'', weight_decay = 0.0001, momentum = 0.9,
      resume = None, print_freq = 50, test_freq = 400, save_path = ''./results''\<rparr>"

definition toy_batches :: "real list list batches" where
  "toy_batches =
     \<lparr>label_img = [[1, 0]], label_gt = [0], unlabel_img = [[1 / 20, 19 / 20]], unlabel_gt = [1],
      data_time = 0, batch_time = 0\<rparr>"






text \<open>Observations used to state properties.\<close>

definition trained_state :: "'p state \<Rightarrow> 'p \<times> 'p \<times> 'p sgd \<times> multi_step_lr" where
  "trained_state st = (model st, classifier st, optimizer st, lr_scheduler st)"

definition test_view ::
  "(error \<times> 'p state) + (real \<times> 'p state)
     \<Rightarrow> (error \<times> 'p \<times> 'p \<times> 'p sgd \<times> multi_step_lr) + (real \<times> 'p \<times> 'p \<times> 'p sgd \<times> multi_step_lr)" where
  "test_view r =
     map_sum (\<lambda>es. (fst es, trained_state (snd es))) (\<lambda>rs. (fst rs, trained_state (snd rs))) r"

definition body_view ::
  "(error \<times> locals \<times> 'p state) + (locals \<times> 'p state)
     \<Rightarrow> (error \<times> 'p \<times> 'p \<times> 'p sgd \<times> multi_step_lr) + ('p \<times> 'p \<times> 'p sgd \<times> multi_step_lr)" where
  "body_view r =
     map_sum (\<lambda>r. (fst r, trained_state (snd (snd r)))) (\<lambda>r. trained_state (snd r)) r"





section \<open>Properties of the pseudo-label update\<close>

lemma isub_smul: "isub t (smul c g) = spec_meta_update c t g"
  by (simp add: isub_def smul_def spec_meta_update_def zip_map2 map_zip_map2 split_def)

lemma idiv_rows:
  "idiv t (sum_dim1 t) = map (\<lambda>row. map (\<lambda>x. fdiv x (sum_list row)) row) t"
  by (simp add: idiv_def sum_dim1_def zip_map2 zip_same_conv_map)

lemma clamp_entry: "min (max x 0) 1 = spec_clamp_unit x"
  by (simp add: spec_clamp_unit_def min_def max_def)

lemma relu_entry: "max x 0 = spec_clip_negative x"
  by (simp add: spec_clip_negative_def max_def)

lemma update_policy0:
  "update_pseudo_gt ''0'' c t g = spec_project 0 (spec_meta_update c t g)"
  by (simp add: update_pseudo_gt_def Let_def isub_smul idiv_rows clamp_def clamp_entry
      spec_project_def spec_divide_by_sum_def comp_def)

lemma update_policy1:
  "update_pseudo_gt ''1'' c t g = spec_project 1 (spec_meta_update c t g)"
  by (simp add: update_pseudo_gt_def Let_def isub_smul idiv_rows relu_inplace_def relu_entry
      spec_project_def spec_divide_by_sum_def comp_def)

lemma update_policy2:
  "update_pseudo_gt ''2'' c t g = spec_project 2 (spec_meta_update c t g)"
  by (simp add: update_pseudo_gt_def Let_def isub_smul relu_inplace_def relu_entry
      spec_project_def comp_def)

lemma train_step_target:
  "unlabel_pseudo_gt (fst (train_step T a b st)) =
     \<lparr>data = update_pseudo_gt (type a) (compute_inner_lr a st)
               (data (initial_pseudo_gt T b st)) (meta_gradient T a b st),
      requires_grad = False\<rparr>"
  by (simp add: train_step_def Let_def)

lemma train_step_loss:
  "loss (fst (train_step T a b st)) =
     kl_div T (log_softmax T (forward T (model st, classifier st) (unlabel_img b)))
       (detach (unlabel_pseudo_gt (fst (train_step T a b st))))"
  by (simp add: train_step_def Let_def)

text \<open>
  C2. The tensor operations of lines 128--137 compute, for \<open>args.type\<close> '0', '1' and '2',
  exactly the projection the specification words: after \<open>target -= inner_lr * grad\<close>,
  policy 0 clamps every entry to [0,1] and divides each row by its sum, policy 1 sets
  negative entries to 0 and divides each row by its sum, policy 2 sets negative entries to
  0 and does not renormalise. The pseudo-label tensor of an iteration is this projection
  of the softmax target and the meta-gradient, and the final loss is the KL divergence
  taken against its detached copy, which does not require a gradient.
\<close>

theorem projection_matches_policies:
  "update_pseudo_gt ''0'' c t g = spec_project 0 (spec_meta_update c t g)
   \<and> update_pseudo_gt ''1'' c t g = spec_project 1 (spec_meta_update c t g)
   \<and> update_pseudo_gt ''2'' c t g = spec_project 2 (spec_meta_update c t g)
   \<and> unlabel_pseudo_gt (fst (train_step T a b st)) =
       \<lparr>data = update_pseudo_gt (type a) (compute_inner_lr a st)
                 (data (initial_pseudo_gt T b st)) (meta_gradient T a b st),
        requires_grad = False\<rparr>
   \<and> loss (fst (train_step T a b st)) =
       kl_div T (log_softmax T (forward T (model st, classifier st) (unlabel_img b)))
         (detach (unlabel_pseudo_gt (fst (train_step T a b st))))
   \<and> requires_grad (detach (unlabel_pseudo_gt (fst (train_step T a b st)))) = False"
proof -
  have "requires_grad (detach (unlabel_pseudo_gt (fst (train_step T a b st)))) = False"
    by (simp add: detach_def)
  then show ?thesis
    using update_policy0 update_policy1 update_policy2 train_step_target train_step_loss
    by blast
qed

subsection \<open>Rows that are renormalised\<close>











text \<open>
  C9. With \<open>args.type\<close> '3' no branch of the projection runs: the pseudo-label tensor is
  exactly \<open>target - inner_lr * grad\<close>, and this unclipped tensor, detached, is the target
  of the final KL-divergence loss. The instance after the theorem has a negative entry
  and a row sum of 4/5.
\<close>

theorem type3_leaves_update_unprojected:
  "update_pseudo_gt ''3'' c t g = map (map Fin) (isub t (smul c g))
   \<and> (type a = ''3'' \<longrightarrow>
        unlabel_pseudo_gt (fst (train_step T a b st)) =
          \<lparr>data = map (map Fin) (isub (data (initial_pseudo_gt T b st))
                     (smul (compute_inner_lr a st) (meta_gradient T a b st))),
           requires_grad = False\<rparr>
        \<and> loss (fst (train_step T a b st)) =
            kl_div T (log_softmax T (forward T (model st, classifier st) (unlabel_img b)))
              \<lparr>data = map (map Fin) (isub (data (initial_pseudo_gt T b st))
                     (smul (compute_inner_lr a st) (meta_gradient T a b st))),
               requires_grad = False\<rparr>)"
  by (simp add: train_step_def update_pseudo_gt_def Let_def detach_def)

theorem type3_witness:
  "type (toy_args\<lparr>type := ''3''\<rparr>) = ''3''
   \<and> unlabel_pseudo_gt (fst (train_step toy_torch (toy_args\<lparr>type := ''3''\<rparr>) toy_batches
         (build toy_args 1 1 Map.empty))) =
       \<lparr>data = [[Fin (- (1 / 20)), Fin (17 / 20)]], requires_grad = False\<rparr>
   \<and> fsum [Fin (- (1 / 20)), Fin (17 / 20)] = Fin (4 / 5)"
  using type3_leaves_update_unprojected [of "1 / 10" "[[1 / 20, 19 / 20]]" "[[1, 1]]"
      "toy_args\<lparr>type := ''3''\<rparr>" toy_torch toy_batches "build toy_args 1 1 Map.empty"]
  by (simp add: toy_args_def toy_torch_def toy_batches_def build_def SGD_def MultiStepLR_def
      scheduler_step_def get_lr_def Let_def initial_pseudo_gt_def compute_inner_lr_def
      meta_gradient_def detach_def isub_def smul_def fsum_def)


section \<open>The loop and the learning-rate schedule\<close>

declare for_range.simps [simp del]

lemma for_range_done: "n \<le> i \<Longrightarrow> for_range i n body s = s"
  by (subst for_range.simps) simp

lemma for_range_first: "i < n \<Longrightarrow> for_range i n body s = for_range (i + 1) n body (body i s)"
  by (subst for_range.simps) simp

lemma for_range_split:
  "i \<le> k \<Longrightarrow> k \<le> n \<Longrightarrow> for_range i n body s = for_range k n body (for_range i k body s)"
proof (induction i n body s rule: for_range.induct)
  case (1 i n body s)
  show ?case
  proof (cases "i < k")
    case True
    then have "i < n" using "1.prems" by simp
    then show ?thesis
      using "1.IH" True "1.prems" by (simp add: for_range_first)
  next
    case False
    then show ?thesis using "1.prems" by (simp add: for_range_done)
  qed
qed

lemma for_range_last:
  "i \<le> n \<Longrightarrow> for_range i (n + 1) body s = body n (for_range i n body s)"
  using for_range_split [of i n "n + 1" body s]
  by (simp add: for_range_first for_range_done)

lemma for_range_invariant:
  assumes "P s" and "\<And>j t. i \<le> j \<Longrightarrow> j < n \<Longrightarrow> P t \<Longrightarrow> P (body j t)"
  shows "P (for_range i n body s)"
  using assms
proof (induction i n body s rule: for_range.induct)
  case (1 i n body s)
  show ?case
  proof (cases "i < n")
    case True
    have "P (body i s)" using "1.prems" True by simp
    then have "P (for_range (i + 1) n body (body i s))"
      using "1.IH" [OF True] "1.prems"(2) by simp
    then show ?thesis using True by (simp add: for_range_first)
  next
    case False
    then show ?thesis using "1.prems"(1) by (simp add: for_range_done)
  qed
qed

text \<open>What one iteration does to scheduler and learning rate.\<close>

lemma train_step_scheduler:
  "lr_scheduler (snd (train_step T a b st)) =
     (lr_scheduler st)\<lparr>last_epoch := last_epoch (lr_scheduler st) + 1\<rparr>"
  by (simp add: train_step_def Let_def scheduler_step_def)

lemma train_step_lr:
  "sgd.lr (optimizer (snd (train_step T a b st))) =
     get_lr ((lr_scheduler st)\<lparr>last_epoch := last_epoch (lr_scheduler st) + 1\<rparr>)
       (sgd.lr (optimizer st))"
  by (simp add: train_step_def Let_def scheduler_step_def)

lemma train_step_frame:
  "files (snd (train_step T a b st)) = files st
   \<and> out (snd (train_step T a b st)) = out st
   \<and> model_training (snd (train_step T a b st)) = model_training st
   \<and> classifier_training (snd (train_step T a b st)) = classifier_training st
   \<and> grad_enabled (snd (train_step T a b st)) = grad_enabled st"
  by (simp add: train_step_def Let_def)

lemma reached_step:
  "e0 \<le> e \<Longrightarrow> reached ms e0 (e + 1) = reached ms e0 e + count_list ms (e + 1)"
proof (induction ms)
  case Nil
  then show ?case by (simp add: reached_def)
next
  case (Cons k ks)
  then show ?case by (auto simp: reached_def)
qed

lemma get_lr_count: "get_lr sch cur = cur * gamma sch ^ count_list (milestones sch) (last_epoch sch)"
  by (simp add: get_lr_def count_list_0_iff)


lemma loop_body_snd:
  "snd (loop_body T a b step ls) =
     (snd (train_step T a b (snd ls)))\<lparr>out := out (snd (train_step T a b (snd ls))) @ [Print]\<rparr>"
  by (simp add: loop_body_def Let_def)

lemma loop_body_fst: "fst (loop_body T a b step ls) = fst ls"
  by (simp add: loop_body_def Let_def)

lemma main_upto_start:
  "main_upto T a loader st (start_step a) =
     (initial_locals,
      st\<lparr>model_training := True, classifier_training := True,
         out := out st @ [Info ''Start training...'']\<rparr>)"
  by (simp add: main_upto_def for_range_done)

lemma main_upto_next:
  "start_step a \<le> n \<Longrightarrow>
   main_upto T a loader st (n + 1) =
     loop_body T a (loader (nat (n - start_step a))) n (main_upto T a loader st n)"
  by (simp add: main_upto_def Let_def for_range_last)

lemma main_upto_scheduler:
  "start_step a \<le> n \<Longrightarrow>
   lr_scheduler (snd (main_upto T a loader st n)) =
     (lr_scheduler st)\<lparr>last_epoch := last_epoch (lr_scheduler st) + (n - start_step a)\<rparr>"
proof (induction n rule: int_ge_induct)
  case base
  then show ?case by (simp add: main_upto_start)
next
  case (step i)
  then show ?case
    by (simp add: main_upto_next loop_body_snd train_step_scheduler)
qed

lemma main_upto_lr:
  "start_step a \<le> n \<Longrightarrow>
   sgd.lr (optimizer (snd (main_upto T a loader st n))) =
     sgd.lr (optimizer st) * gamma (lr_scheduler st) ^
       reached (milestones (lr_scheduler st)) (last_epoch (lr_scheduler st))
         (last_epoch (lr_scheduler st) + (n - start_step a))"
proof (induction n rule: int_ge_induct)
  case base
  then show ?case by (simp add: main_upto_start reached_def)
next
  case (step i)
  let ?e0 = "last_epoch (lr_scheduler st)"
  let ?ms = "milestones (lr_scheduler st)"
  have e: "?e0 + (i + 1 - start_step a) = ?e0 + (i - start_step a) + 1" by simp
  have le: "?e0 \<le> ?e0 + (i - start_step a)" using step.hyps by simp
  have "sgd.lr (optimizer (snd (main_upto T a loader st (i + 1)))) =
          sgd.lr (optimizer (snd (main_upto T a loader st i))) *
            gamma (lr_scheduler st) ^ count_list ?ms (?e0 + (i - start_step a) + 1)"
    using step.hyps
    by (simp add: main_upto_next loop_body_snd train_step_lr main_upto_scheduler get_lr_count)
  also have "\<dots> = sgd.lr (optimizer st) * gamma (lr_scheduler st) ^
                    (reached ?ms ?e0 (?e0 + (i - start_step a))
                     + count_list ?ms (?e0 + (i - start_step a) + 1))"
    by (simp only: step.IH power_add mult.assoc)
  finally show ?case
    unfolding e reached_step [OF le] .
qed

lemma build_scheduler:
  "lr_scheduler (build a m c fs) =
     \<lparr>gamma = lr_decay a, milestones = [total_steps a div 2, total_steps a * 3 div 4],
      last_epoch = 0, base_lr = args.lr a\<rparr>"
  by (simp add: build_def MultiStepLR_def SGD_def scheduler_step_def Let_def)

lemma build_lr:
  "sgd.lr (optimizer (build a m c fs)) =
     args.lr a * lr_decay a ^ count_list [total_steps a div 2, total_steps a * 3 div 4] 0"
  by (simp add: build_def MultiStepLR_def SGD_def scheduler_step_def Let_def get_lr_count)

lemma passed_milestones:
  "0 \<le> s \<Longrightarrow> \<forall>k\<in>set ms. 0 \<le> k \<Longrightarrow>
   count_list ms 0 + reached ms 0 s = length (filter (\<lambda>k. k \<le> s) ms)"
  by (induction ms) (auto simp: reached_def)

lemma fresh_run_lr:
  assumes "start_step a = 0" and "0 \<le> s" and "s < total_steps a"
  shows "sgd.lr (optimizer (snd (main_upto T a loader (build a m c fs) s))) =
           args.lr a * lr_decay a ^
             length (filter (\<lambda>k. k \<le> s) [total_steps a div 2, total_steps a * 3 div 4])"
proof -
  have ms: "\<forall>k\<in>set [total_steps a div 2, total_steps a * 3 div 4]. 0 \<le> k"
    using assms by simp
  have st: "start_step a \<le> s" using assms by simp
  show ?thesis
    unfolding main_upto_lr [OF st] build_scheduler build_lr
    using passed_milestones [OF assms(2) ms] assms(1)
    by (simp add: power_add [symmetric] mult.assoc del: count_list.simps filter.simps)
qed


lemma main_passes_through:
  "start_step a \<le> s \<Longrightarrow> s \<le> total_steps a \<Longrightarrow>
   main T a loader st =
     for_range s (total_steps a)
       (\<lambda>step. loop_body T a (loader (nat (step - start_step a))) step)
       (main_upto T a loader st s)"
  using for_range_split [of "start_step a" s "total_steps a"]
  by (simp add: main_def main_upto_def Let_def)

text \<open>
  C5. In a run that starts at step 0 without a checkpoint, the optimizer enters
  iteration \<open>s\<close> with the learning rate \<open>lr * lr_decay ^ n\<close>, where \<open>n\<close> counts the
  milestones \<open>total_steps div 2\<close> and \<open>total_steps * 3 div 4\<close> that are at most \<open>s\<close>, and
  the scheduler has been advanced exactly \<open>s\<close> times, whatever \<open>test_freq\<close> is. With
  \<open>total_steps = 100000\<close>, \<open>lr = 0.1\<close> and \<open>lr_decay = 0.1\<close> the rate is 0.1 before step
  50000, 0.01 from there to step 74999, and 0.001 from step 75000 on. Rates are reals.
\<close>

theorem lr_schedule_fresh_run:
  "(start_step a = 0 \<and> 0 \<le> s \<and> s < total_steps a \<longrightarrow>
      sgd.lr (optimizer (snd (main_upto T a loader (build a m c fs) s))) =
        args.lr a * lr_decay a ^
          length (filter (\<lambda>k. k \<le> s) [total_steps a div 2, total_steps a * 3 div 4])
      \<and> last_epoch (lr_scheduler (snd (main_upto T a loader (build a m c fs) s))) = s)
   \<and> (start_step a = 0 \<and> total_steps a = 100000 \<and> args.lr a = 0.1 \<and> lr_decay a = 0.1
        \<and> 0 \<le> s \<and> s < 100000 \<longrightarrow>
      sgd.lr (optimizer (snd (main_upto T a loader (build a m c fs) s))) =
        (if s < 50000 then 0.1 else if s < 75000 then 0.01 else 0.001))"
proof (intro conjI impI)
  assume h: "start_step a = 0 \<and> 0 \<le> s \<and> s < total_steps a"
  then show "sgd.lr (optimizer (snd (main_upto T a loader (build a m c fs) s))) =
        args.lr a * lr_decay a ^
          length (filter (\<lambda>k. k \<le> s) [total_steps a div 2, total_steps a * 3 div 4])"
    using fresh_run_lr [of a s T loader m c fs] by simp
  from h have "start_step a \<le> s" by simp
  then show "last_epoch (lr_scheduler (snd (main_upto T a loader (build a m c fs) s))) = s"
    using h by (simp add: main_upto_scheduler build_scheduler)
next
  assume h: "start_step a = 0 \<and> total_steps a = 100000 \<and> args.lr a = 0.1 \<and> lr_decay a = 0.1
        \<and> 0 \<le> s \<and> s < 100000"
  then have eq: "sgd.lr (optimizer (snd (main_upto T a loader (build a m c fs) s))) =
        args.lr a * lr_decay a ^
          length (filter (\<lambda>k. k \<le> s) [total_steps a div 2, total_steps a * 3 div 4])"
    using fresh_run_lr [of a s T loader m c fs] by simp
  from h have v: "args.lr a = 1 / 10" "lr_decay a = 1 / 10" "total_steps a = 100000"
    by simp_all
  show "sgd.lr (optimizer (snd (main_upto T a loader (build a m c fs) s))) =
        (if s < 50000 then 0.1 else if s < 75000 then 0.01 else 0.001)"
    unfolding eq v by (simp add: power2_eq_square)
qed

theorem lr_schedule_witness:
  "sgd.lr (optimizer (snd (main_upto toy_torch toy_args (\<lambda>k. toy_batches)
      (build toy_args 1 1 Map.empty) 60000))) = 0.01
   \<and> last_epoch (lr_scheduler (snd (main_upto toy_torch toy_args (\<lambda>k. toy_batches)
      (build toy_args 1 1 Map.empty) 60000))) = 60000
   \<and> sgd.lr (optimizer (snd (main_upto toy_torch toy_args (\<lambda>k. toy_batches)
      (build toy_args 1 1 Map.empty) 80000))) = 0.001"
  using lr_schedule_fresh_run [of toy_args 60000 toy_torch "\<lambda>k. toy_batches" 1 1 Map.empty]
    lr_schedule_fresh_run [of toy_args 80000 toy_torch "\<lambda>k. toy_batches" 1 1 Map.empty]
  by (simp add: toy_args_def)


section \<open>Checkpoints and resuming\<close>


lemma checkpoint_dict_no_epoch: "checkpoint_dict step best st ''epoch'' = None"
  by (simp add: checkpoint_dict_def)

lemma and_then_Inr: "and_then r f = Inr y \<longleftrightarrow> (\<exists>x. r = Inr x \<and> f x = Inr y)"
  by (cases r) (simp_all add: and_then_def)


lemma resume_block_loaded:
  assumes "resume_block a st = Inr (a', gb, st')" and "resume a = Some path"
    and "files st path = Some d"
  shows "d ''step'' = Some (CkInt (start_step a')) \<and> d ''optimizer'' = Some (CkOptim (optimizer st'))
         \<and> d ''model'' = Some (CkParams (model st')) \<and> d ''classifier'' = Some (CkParams (classifier st'))
         \<and> d ''epoch'' \<noteq> None"
  using assms
  by (auto simp: resume_block_def and_then_Inr read_entry_def getitem_def as_int_def
      as_params_def as_optim_def split: option.splits ckval.splits)











section \<open>What \<open>main\<close> leaves behind\<close>

lemma main_upto_before_start:
  "n \<le> start_step a \<Longrightarrow> main_upto T a loader st n = main_upto T a loader st (start_step a)"
  by (simp add: main_upto_def for_range_done)

lemma main_upto_locals_ge:
  "start_step a \<le> n \<Longrightarrow> fst (main_upto T a loader st n) = initial_locals"
proof (induction n rule: int_ge_induct)
  case base
  then show ?case by (simp add: main_upto_start)
next
  case (step i)
  then show ?case by (simp add: main_upto_next loop_body_fst)
qed

lemma main_upto_locals: "fst (main_upto T a loader st n) = initial_locals"
proof (cases "start_step a \<le> n")
  case True
  then show ?thesis by (rule main_upto_locals_ge)
next
  case False
  then show ?thesis by (simp add: main_upto_before_start main_upto_start)
qed

lemma main_upto_files_ge:
  "start_step a \<le> n \<Longrightarrow> files (snd (main_upto T a loader st n)) = files st"
proof (induction n rule: int_ge_induct)
  case base
  then show ?case by (simp add: main_upto_start)
next
  case (step i)
  then show ?case by (simp add: main_upto_next loop_body_snd train_step_frame)
qed

lemma main_upto_files: "files (snd (main_upto T a loader st n)) = files st"
proof (cases "start_step a \<le> n")
  case True
  then show ?thesis by (rule main_upto_files_ge)
next
  case False
  then show ?thesis by (simp add: main_upto_before_start main_upto_start)
qed

lemma main_upto_out_ge:
  "start_step a \<le> n \<Longrightarrow>
   out (snd (main_upto T a loader st n)) =
     out st @ Info ''Start training...'' # replicate (nat (n - start_step a)) Print"
proof (induction n rule: int_ge_induct)
  case base
  then show ?case by (simp add: main_upto_start)
next
  case (step i)
  have "nat (i + 1 - start_step a) = Suc (nat (i - start_step a))"
    using step.hyps by simp
  then show ?case
    using step
    by (simp add: main_upto_next loop_body_snd train_step_frame replicate_append_same)
qed

lemma main_upto_out:
  "out (snd (main_upto T a loader st n)) =
     out st @ Info ''Start training...'' # replicate (nat (n - start_step a)) Print"
proof (cases "start_step a \<le> n")
  case True
  then show ?thesis by (rule main_upto_out_ge)
next
  case False
  then show ?thesis by (simp add: main_upto_before_start main_upto_start)
qed

text \<open>
  C1 (the code departs from it). Every iteration of \<open>main\<close> ends at the \<open>continue\<close> of
  line 156: for all arguments and every range of steps, the meters are still the empty
  ones when \<open>main\<close> returns, no file has been written, and the output consists of the
  start message and one \<open>print\<close> per iteration, so no metric is recorded, \<open>test()\<close>
  is never called and no checkpoint is saved, also at the steps where \<open>step + 1\<close> is a
  multiple of \<open>test_freq\<close> and at the last step. The instance runs one step with
  \<open>test_freq = 1\<close>.
\<close>

theorem main_skips_metrics_evaluation_checkpoint:
  "fst (main T a loader st) = initial_locals
   \<and> files (snd (main T a loader st)) = files st
   \<and> out (snd (main T a loader st)) =
       out st @ Info ''Start training...'' # replicate (nat (total_steps a - start_step a)) Print
   \<and> map_sum id (\<lambda>r. (fst r, dom (files (snd r)), out (snd r)))
        (program toy_torch (toy_args\<lparr>total_steps := 1, test_freq := 1\<rparr>) 1 1 Map.empty
           (\<lambda>k. toy_batches)) =
       Inr (initial_locals, {}, [Info ''Start training...'', Print])"
proof -
  let ?a = "toy_args\<lparr>total_steps := 1, test_freq := 1\<rparr>"
  have r: "resume_block ?a (build ?a 1 1 Map.empty) = Inr (?a, None, build ?a 1 1 Map.empty)"
    by (simp add: resume_block_def toy_args_def)
  have b: "files (build ?a 1 1 Map.empty) = Map.empty" "out (build ?a 1 1 Map.empty) = []"
    by (simp_all add: build_def Let_def)
  have "map_sum id (\<lambda>r. (fst r, dom (files (snd r)), out (snd r)))
          (program toy_torch ?a 1 1 Map.empty (\<lambda>k. toy_batches)) =
        Inr (initial_locals, {}, [Info ''Start training...'', Print])"
    unfolding program_def r
    by (simp add: main_def main_upto_locals main_upto_files main_upto_out b)
      (simp add: toy_args_def)
  then show ?thesis
    by (simp add: main_def main_upto_locals main_upto_files main_upto_out)
qed


section \<open>The labels of the unlabeled batch\<close>

lemma initial_pseudo_gt_unlabel_gt:
  "initial_pseudo_gt T (b\<lparr>unlabel_gt := g\<rparr>) st = initial_pseudo_gt T b st"
  by (simp add: initial_pseudo_gt_def)

lemma meta_gradient_unlabel_gt:
  "meta_gradient T a (b\<lparr>unlabel_gt := g\<rparr>) st = meta_gradient T a b st"
  by (simp add: meta_gradient_def initial_pseudo_gt_unlabel_gt)

lemma train_step_unlabel_gt:
  "train_step T a (b\<lparr>unlabel_gt := g\<rparr>) st = train_step T a b st"
  by (simp add: train_step_def initial_pseudo_gt_unlabel_gt meta_gradient_unlabel_gt)

lemma loop_body_unlabel_gt:
  "loop_body T a (b\<lparr>unlabel_gt := g\<rparr>) step ls = loop_body T a b step ls"
  by (simp add: loop_body_def train_step_unlabel_gt)

lemma test_loop_out:
  "map_sum fst fst (test_loop T a params i bs (ms, o1)) =
   map_sum fst fst (test_loop T a params i bs (ms, o2))"
proof (induction bs arbitrary: i ms o1 o2)
  case Nil
  then show ?case by simp
next
  case (Cons b bs)
  then show ?case
    by (simp add: Let_def split: sum.splits prod.splits)
qed

lemma test_out:
  "test_view (test T a hs (st\<lparr>out := o1\<rparr>)) = test_view (test T a hs st)"
proof -
  let ?p = "(model st, classifier st)"
  let ?m = "(new_meter, new_meter, new_meter)"
  have "map_sum fst fst (test_loop T a ?p 0 hs (?m, o1)) =
        map_sum fst fst (test_loop T a ?p 0 hs (?m, out st))"
    by (rule test_loop_out)
  then show ?thesis
    by (cases "test_loop T a ?p 0 hs (?m, o1)"; cases "test_loop T a ?p 0 hs (?m, out st)")
      (auto simp: test_def test_view_def Let_def trained_state_def)
qed

lemma test_view_cases:
  "test_view r1 = test_view r2 \<Longrightarrow>
   (\<exists>e s1 s2. r1 = Inl (e, s1) \<and> r2 = Inl (e, s2) \<and> trained_state s1 = trained_state s2)
   \<or> (\<exists>x s1 s2. r1 = Inr (x, s1) \<and> r2 = Inr (x, s2) \<and> trained_state s1 = trained_state s2)"
  by (cases r1; cases r2) (auto simp: test_view_def)

lemma save_checkpoint_trained:
  "trained_state (save_checkpoint d is_best path filename st) = trained_state st"
  by (simp add: save_checkpoint_def trained_state_def Let_def)

lemma trained_state_out: "trained_state (st\<lparr>out := o1\<rparr>) = trained_state st"
  by (simp add: trained_state_def)

lemma test_and_save_view:
  assumes "test_view (test T a hs st1) = test_view (test T a hs st2)"
  shows "body_view (test_and_save T a hs step (loc1, st1)) =
         body_view (test_and_save T a hs step (loc2, st2))"
  using test_view_cases [OF assms]
  by (auto simp: test_and_save_def body_view_def Let_def save_checkpoint_trained
      trained_state_out)

lemma write_scalars_out:
  "write_scalars T b step v st = st\<lparr>out := out (write_scalars T b step v st)\<rparr>"
  by (simp add: write_scalars_def)

lemma after_continue_unlabel_gt:
  "body_view (after_continue T a hs (b\<lparr>unlabel_gt := g\<rparr>) step v ls) =
   body_view (after_continue T a hs b step v ls)"
proof -
  let ?st = "snd ls"
  let ?w1 = "write_scalars T (b\<lparr>unlabel_gt := g\<rparr>) step v ?st"
  let ?w2 = "write_scalars T b step v ?st"
  let ?l1 = "update_stats T (b\<lparr>unlabel_gt := g\<rparr>) v (fst ls)"
  let ?l2 = "update_stats T b v (fst ls)"
  define B where "B \<longleftrightarrow> (step + 1) mod test_freq a = 0 \<or> step = total_steps a - 1"
  define P where "P \<longleftrightarrow> step mod print_freq a = 0"
  have w: "\<And>o1. ?w1\<lparr>out := o1\<rparr> = ?st\<lparr>out := o1\<rparr>" "\<And>o1. ?w2\<lparr>out := o1\<rparr> = ?st\<lparr>out := o1\<rparr>"
    by (simp_all add: write_scalars_def)
  have w': "?w1 = ?st\<lparr>out := out ?w1\<rparr>" "?w2 = ?st\<lparr>out := out ?w2\<rparr>"
    by (simp_all add: write_scalars_def)
  have t: "\<And>o1 o2. test_view (test T a hs (?st\<lparr>out := o1\<rparr>)) = test_view (test T a hs (?st\<lparr>out := o2\<rparr>))"
    by (simp add: test_out)
  have ts: "trained_state ?w1 = trained_state ?w2"
    by (simp add: write_scalars_def trained_state_def)
  have t1: "test_view (test T a hs ?w1) = test_view (test T a hs ?w2)"
    by (subst w'(1), subst w'(2)) (rule t)
  have t2: "\<And>o1 o2. test_view (test T a hs (?w1\<lparr>out := o1\<rparr>)) = test_view (test T a hs (?w2\<lparr>out := o2\<rparr>))"
    unfolding w by (rule t)
  have s1: "body_view (test_and_save T a hs step (?l1, ?w1)) =
            body_view (test_and_save T a hs step (?l2, ?w2))"
    using t1 by (rule test_and_save_view)
  have s2: "\<And>o1 o2. body_view (test_and_save T a hs step (?l1, ?w1\<lparr>out := o1\<rparr>)) =
            body_view (test_and_save T a hs step (?l2, ?w2\<lparr>out := o2\<rparr>))"
    using t2 by (rule test_and_save_view)
  have i1: "\<And>e o1 o2. body_view (Inl (e, ?l1, ?w1\<lparr>out := o1\<rparr>)) = body_view (Inl (e, ?l2, ?w2\<lparr>out := o2\<rparr>))"
    "\<And>e. body_view (Inl (e, ?l1, ?w1)) = body_view (Inl (e, ?l2, ?w2))"
    "\<And>o1 o2. body_view (Inr (?l1, ?w1\<lparr>out := o1\<rparr>)) = body_view (Inr (?l2, ?w2\<lparr>out := o2\<rparr>))"
    "body_view (Inr (?l1, ?w1)) = body_view (Inr (?l2, ?w2))"
    using ts by (simp_all add: body_view_def trained_state_out)
  show ?thesis
    unfolding after_continue_def Let_def B_def [symmetric] P_def [symmetric] fst_conv snd_conv
    by (cases "print_freq a = 0"; cases "test_freq a = 0"; cases B; cases P)
      (simp_all only: if_True if_False s1 s2 i1 simp_thms)
qed

text \<open>
  C7. Two executions of an iteration that differ only in the labels attached to the
  unlabeled batch compute the same values (among them the refined pseudo-labels and the
  losses) and leave the same state: parameters, optimizer and scheduler. The same holds
  for the loop body as it runs (up to line 156). If the statements after line 156 ran
  as well, the labels would reach only the accuracy meter and the scalar written for
  it: parameters, optimizer and scheduler would again be the same, and so would the
  exception raised, if any.
\<close>

theorem unlabel_gt_never_reaches_parameters:
  "train_step T a (b\<lparr>unlabel_gt := g1\<rparr>) st = train_step T a (b\<lparr>unlabel_gt := g2\<rparr>) st
   \<and> loop_body T a (b\<lparr>unlabel_gt := g1\<rparr>) step ls = loop_body T a (b\<lparr>unlabel_gt := g2\<rparr>) step ls
   \<and> body_view (body_without_continue T a hs (b\<lparr>unlabel_gt := g1\<rparr>) step ls) =
       body_view (body_without_continue T a hs (b\<lparr>unlabel_gt := g2\<rparr>) step ls)"
  by (simp add: train_step_unlabel_gt loop_body_unlabel_gt body_without_continue_def
      after_continue_unlabel_gt Let_def)


section \<open>Modes around \<open>test()\<close>\<close>








section \<open>The meters after evaluation and checkpoint\<close>










section \<open>The best score across a resume\<close>





end
